theory Spec2Isabelle
  imports Complex_Main "HOL-Library.Sublist"
begin

section \<open>Python values\<close>

text \<open>
  A Python \<^verbatim>\<open>str\<close> is a sequence of Unicode code points, so a string is a list of
  naturals; \<open>str\<close> turns a literal of the source into one.
\<close>

type_synonym pystr = "nat list"

definition str :: "string \<Rightarrow> pystr" where
  "str s = map of_char s"

text \<open>
  A float is written by the exact value of the double it is (\<open>Finite 50\<close> is \<^verbatim>\<open>50.0\<close>).
  The conversions that produce floats belong to the interpreter and are taken from the
  \<open>runtime\<close> below.
\<close>

datatype pyfloat = Finite rat | NegZero | PosInf | NegInf | NaN

text \<open>
  The values \<^verbatim>\<open>json.loads\<close> produces and \<^verbatim>\<open>requests\<close> serialises. A \<^verbatim>\<open>dict\<close> is an
  association list in insertion order.
\<close>

datatype pyval =
    PNone
  | PBool bool
  | PInt int
  | PFloat pyfloat
  | PStr pystr
  | PList "pyval list"
  | PDict "(pystr \<times> pyval) list"

type_synonym pydict = "(pystr \<times> pyval) list"

datatype py_error = ValueError | TypeError | AttributeError | OverflowError | RecursionError

text \<open>\<^verbatim>\<open>d.get(k)\<close>: \<^verbatim>\<open>None\<close> for a missing key.\<close>

definition dict_get :: "pydict \<Rightarrow> pystr \<Rightarrow> pyval" where
  "dict_get d k = (case map_of d k of None \<Rightarrow> PNone | Some v \<Rightarrow> v)"

text \<open>\<^verbatim>\<open>d.get(k, default)\<close>.\<close>

definition dict_get_default :: "pydict \<Rightarrow> pystr \<Rightarrow> pyval \<Rightarrow> pyval" where
  "dict_get_default d k dflt = (case map_of d k of None \<Rightarrow> dflt | Some v \<Rightarrow> v)"

text \<open>\<^verbatim>\<open>d[k] = v\<close>: an existing key keeps its place, a new one goes last.\<close>

fun dict_set :: "pydict \<Rightarrow> pystr \<Rightarrow> pyval \<Rightarrow> pydict" where
  "dict_set [] k v = [(k, v)]"
| "dict_set ((k', v') # d) k v = (if k' = k then (k, v) # d else (k', v') # dict_set d k v)"

text \<open>\<^verbatim>\<open>d.update(e)\<close> for a dict \<open>e\<close>.\<close>

definition dict_update :: "pydict \<Rightarrow> pydict \<Rightarrow> pydict" where
  "dict_update d e = foldl (\<lambda>acc (k, v). dict_set acc k v) d e"

section \<open>String operations\<close>

text \<open>\<^verbatim>\<open>s.startswith(p)\<close>.\<close>

definition startswith :: "pystr \<Rightarrow> pystr \<Rightarrow> bool" where
  "startswith s p = prefix p s"

text \<open>\<^verbatim>\<open>s.endswith(p)\<close>.\<close>

definition endswith :: "pystr \<Rightarrow> pystr \<Rightarrow> bool" where
  "endswith s p = suffix p s"

text \<open>
  \<^verbatim>\<open>s.split(".", 1)\<close>: the one-element list \<open>[s]\<close> when \<open>s\<close> has no dot, otherwise the
  text before the first dot and the text after it.
\<close>

definition dot :: nat where
  "dot = 46"

definition split1 :: "pystr \<Rightarrow> pystr list" where
  "split1 s =
     (if dot \<in> set s then [takeWhile (\<lambda>c. c \<noteq> dot) s, tl (dropWhile (\<lambda>c. c \<noteq> dot) s)]
      else [s])"

text \<open>
  \<^verbatim>\<open>a, b = xs\<close>: unpacking into two names raises \<^verbatim>\<open>ValueError\<close> unless \<open>xs\<close> has exactly
  two elements.
\<close>

fun unpack2 :: "'a list \<Rightarrow> py_error + ('a \<times> 'a)" where
  "unpack2 [a, b] = Inr (a, b)"
| "unpack2 _ = Inl ValueError"

text \<open>
  The code points \<^verbatim>\<open>str.strip()\<close> removes (those for which \<^verbatim>\<open>str.isspace\<close> holds).
\<close>

definition py_isspace :: "nat \<Rightarrow> bool" where
  "py_isspace c \<longleftrightarrow>
     (9 \<le> c \<and> c \<le> 13) \<or> (28 \<le> c \<and> c \<le> 32) \<or> c = 133 \<or> c = 160 \<or> c = 5760 \<or>
     (8192 \<le> c \<and> c \<le> 8202) \<or> c = 8232 \<or> c = 8233 \<or> c = 8239 \<or> c = 8287 \<or> c = 12288"

definition lstrip :: "pystr \<Rightarrow> pystr" where
  "lstrip s = dropWhile py_isspace s"

definition rstrip :: "pystr \<Rightarrow> pystr" where
  "rstrip s = rev (dropWhile py_isspace (rev s))"

definition strip :: "pystr \<Rightarrow> pystr" where
  "strip s = rstrip (lstrip s)"

text \<open>\<^verbatim>\<open>str(n)\<close> of an integer, as an f-string renders it.\<close>

fun digits :: "nat \<Rightarrow> pystr" where
  "digits n = (if n < 10 then [48 + n] else digits (n div 10) @ [48 + n mod 10])"

declare digits.simps [simp del]

definition str_of_int :: "int \<Rightarrow> pystr" where
  "str_of_int i = (if i < 0 then 45 # digits (nat (- i)) else digits (nat i))"

section \<open>The collaborators\<close>

text \<open>
  What \<^verbatim>\<open>requests.post(url, headers=..., json=..., timeout=...)\<close> is called with, and how
  the call ends. It returns a response, or it raises a \<^verbatim>\<open>RequestException\<close> \<open>e\<close>, carried
  as \<^verbatim>\<open>str(e)\<close>: from the transport (a timeout, a connection error), or before anything is
  sent, while the request is prepared (\<^verbatim>\<open>InvalidJSONError\<close> for a body that cannot be
  encoded, \<^verbatim>\<open>MissingSchema\<close> or \<^verbatim>\<open>InvalidURL\<close> for a URL that cannot be used). The call is
  taken to raise nothing else.
\<close>

record request =
  req_url :: pystr
  req_headers :: "(pystr \<times> pystr) list"
  req_json :: pyval
  req_timeout :: nat

record response =
  status_code :: int
  resp_text :: pystr

datatype post_outcome = Responded response | TransportFailure pystr | NotSent pystr

text \<open>Whether the call went out to the network.\<close>

fun reaches_network :: "post_outcome \<Rightarrow> bool" where
  "reaches_network (Responded _) = True"
| "reaches_network (TransportFailure _) = True"
| "reaches_network (NotSent _) = False"

text \<open>
  The requests library encodes the body with \<^verbatim>\<open>allow_nan=False\<close>: a body that holds
  \<^verbatim>\<open>inf\<close>, \<^verbatim>\<open>-inf\<close> or \<^verbatim>\<open>nan\<close> anywhere is refused with \<^verbatim>\<open>InvalidJSONError\<close> before the
  request is sent.
\<close>

fun json_compliant :: "pyval \<Rightarrow> bool" where
  "json_compliant (PFloat f) = (f \<noteq> PosInf \<and> f \<noteq> NegInf \<and> f \<noteq> NaN)"
| "json_compliant (PList vs) = list_all json_compliant vs"
| "json_compliant (PDict kvs) = list_all (\<lambda>kv. json_compliant (snd kv)) kvs"
| "json_compliant _ = True"

text \<open>
  \<^verbatim>\<open>response.ok\<close> of the requests library: false exactly when \<^verbatim>\<open>raise_for_status()\<close>
  would raise, that is for a status from 400 to 599.
\<close>

definition ok :: "response \<Rightarrow> bool" where
  "ok r \<longleftrightarrow> \<not> (400 \<le> status_code r \<and> status_code r < 600)"

text \<open>\<^verbatim>\<open>json.loads\<close> raises \<^verbatim>\<open>JSONDecodeError\<close>, returns a value, or raises something else.\<close>

datatype loads_outcome = JSONDecodeError | Loaded pyval | LoadsRaised py_error

text \<open>
  The library and interpreter functions the program calls:
  \<^verbatim>\<open>requests.post\<close>, \<^verbatim>\<open>json.loads\<close>, \<^verbatim>\<open>float\<close> on a string (\<open>None\<close> is \<^verbatim>\<open>ValueError\<close>)
  and \<^verbatim>\<open>float\<close> on an integer (\<open>None\<close> is \<^verbatim>\<open>OverflowError\<close>).
\<close>

record runtime =
  post :: "request \<Rightarrow> post_outcome"
  json_loads :: "pystr \<Rightarrow> loads_outcome"
  float_of_str :: "pystr \<Rightarrow> pyfloat option"
  float_of_int :: "int \<Rightarrow> pyfloat option"

text \<open>
  What an invocation does to the outside, in order: a call of \<^verbatim>\<open>requests.post\<close>, a write
  to the preference store (\<^verbatim>\<open>change_setting_val\<close>) or a read of it (\<^verbatim>\<open>get_setting_val\<close>).
  The preference store is the imported \<^verbatim>\<open>Preferences\<close> class: its calls are recorded and
  taken to return. Log lines are not recorded.
\<close>

datatype event =
    HttpPost request
  | ChangeSetting pystr pyval
  | GetSetting pystr

fun is_post_call :: "event \<Rightarrow> bool" where
  "is_post_call (HttpPost _) = True"
| "is_post_call _ = False"

text \<open>
  A call of \<^verbatim>\<open>requests.post\<close> is an outbound network call when it gets as far as the
  network: not when it raises while the request is prepared.
\<close>

fun is_network_call :: "runtime \<Rightarrow> event \<Rightarrow> bool" where
  "is_network_call rt (HttpPost rq) = reaches_network (post rt rq)"
| "is_network_call rt _ = False"

fun is_settings_mutation :: "event \<Rightarrow> bool" where
  "is_settings_mutation (ChangeSetting _ _) = True"
| "is_settings_mutation _ = False"

definition post_calls :: "event list \<Rightarrow> nat" where
  "post_calls evs = length (filter is_post_call evs)"

definition network_calls :: "runtime \<Rightarrow> event list \<Rightarrow> nat" where
  "network_calls rt evs = length (filter (is_network_call rt) evs)"

definition settings_mutations :: "event list \<Rightarrow> nat" where
  "settings_mutations evs = length (filter is_settings_mutation evs)"

text \<open>The fields of \<^verbatim>\<open>HAGPT\<close> the dispatcher reads.\<close>

record hagpt =
  ha_url :: pystr
  base_url :: pystr
  ha_token :: pystr

section \<open>The response parser\<close>

text \<open>
  The intent \<^verbatim>\<open>_clean_ai_response\<close> returns (a dict with these five keys). The fields
  hold whatever the decoded object has under them.
\<close>

record intent =
  i_service :: pyval
  i_target :: pyval
  i_variables :: pyval
  i_response_text :: pyval
  i_data :: pyval

definition fence :: pystr where
  "fence = [96, 96, 96]"

definition newline :: nat where
  "newline = 10"

definition ascii_letter :: "nat \<Rightarrow> bool" where
  "ascii_letter c \<longleftrightarrow> (97 \<le> c \<and> c \<le> 122) \<or> (65 \<le> c \<and> c \<le> 90)"

text \<open>
  \<^verbatim>\<open>re.sub(r'^```[a-zA-Z]*\n?', '', s)\<close>: the pattern is anchored at the start, so it
  matches at most once: three backticks, the longest run of ASCII letters, and one
  newline if one follows.
\<close>

definition sub_leading_fence :: "pystr \<Rightarrow> pystr" where
  "sub_leading_fence s =
     (if startswith s fence then
        (case dropWhile ascii_letter (drop 3 s) of
           [] \<Rightarrow> []
         | c # r \<Rightarrow> if c = newline then r else c # r)
      else s)"

text \<open>The optional \<^verbatim>\<open>\n\<close> in front of the closing fence.\<close>

definition chop_newline :: "pystr \<Rightarrow> pystr" where
  "chop_newline r = (if r \<noteq> [] \<and> last r = newline then butlast r else r)"

text \<open>
  \<^verbatim>\<open>re.sub(r'\n?```$', '', s)\<close>: \<^verbatim>\<open>$\<close> matches at the end of the string and just before
  a newline that ends it. The leftmost match takes the newline in front of the
  backticks when there is one.
\<close>

definition sub_trailing_fence :: "pystr \<Rightarrow> pystr" where
  "sub_trailing_fence s =
     (if endswith s fence then chop_newline (take (length s - 3) s)
      else if endswith s (fence @ [newline]) then chop_newline (take (length s - 4) s) @ [newline]
      else s)"

text \<open>The two substitutions of \<^verbatim>\<open>_clean_ai_response\<close>, each on the stripped text.\<close>

definition fence_stripped :: "pystr \<Rightarrow> pystr" where
  "fence_stripped ai_response =
     (let cleaned = sub_leading_fence (strip ai_response)
      in sub_trailing_fence (strip cleaned))"

text \<open>
  \<^verbatim>\<open>_clean_ai_response\<close>. Only \<^verbatim>\<open>json.JSONDecodeError\<close> is caught; \<^verbatim>\<open>.get\<close> on a decoded
  value that is not a dict raises \<^verbatim>\<open>AttributeError\<close>.
\<close>

definition clean_ai_response :: "runtime \<Rightarrow> pystr \<Rightarrow> py_error + intent" where
  "clean_ai_response rt ai_response =
     (let cleaned = fence_stripped ai_response
      in case json_loads rt cleaned of
           JSONDecodeError \<Rightarrow>
             Inr \<lparr>i_service = PNone, i_target = PDict [], i_variables = PDict [],
                  i_response_text = PStr cleaned, i_data = PDict []\<rparr>
         | LoadsRaised e \<Rightarrow> Inl e
         | Loaded (PDict d) \<Rightarrow>
             Inr \<lparr>i_service = dict_get d (str ''service''),
                  i_target = dict_get_default d (str ''target'') (PDict []),
                  i_variables = dict_get_default d (str ''variables'') (PDict []),
                  i_response_text = dict_get_default d (str ''response_text'') (PStr []),
                  i_data = dict_get_default d (str ''data'') (PDict [])\<rparr>
         | Loaded _ \<Rightarrow> Inl AttributeError)"

section \<open>The dispatcher\<close>

text \<open>
  The result dict \<^verbatim>\<open>{"ha_result": ...}\<close> is written as its one value. Lines 195 and 198
  (and 257 and 260): the status and \<^verbatim>\<open>OK\<close> when \<^verbatim>\<open>response.ok\<close>, the status and the body
  otherwise, and \<^verbatim>\<open>Request error:\<close> with the description for a \<^verbatim>\<open>RequestException\<close>.
\<close>

definition ha_result_of :: "post_outcome \<Rightarrow> pystr" where
  "ha_result_of out =
     (case out of
        Responded r \<Rightarrow>
          if ok r then str_of_int (status_code r) @ str '': OK''
          else str_of_int (status_code r) @ str '': '' @ resp_text r
      | TransportFailure e \<Rightarrow> str ''Request error: '' @ e
      | NotSent e \<Rightarrow> str ''Request error: '' @ e)"

text \<open>
  \<^verbatim>\<open>_set_virtual_file_entity\<close>: the calls it makes on the preference store. An entity
  that is neither of the two only logs a warning.
\<close>

definition set_virtual_file_entity :: "pyval \<Rightarrow> pyval \<Rightarrow> event list" where
  "set_virtual_file_entity virt_entity virt_setting =
     (if virt_entity = PStr (str ''switch.debug'') then
        (let setting_name = str ''Log Mode'';
             setting_value = (if virt_setting = PStr (str ''turn_on'') then PStr (str ''Debug'')
                              else PStr (str ''Info''))
         in [ChangeSetting setting_name setting_value, GetSetting setting_name])
      else if virt_entity = PStr (str ''input_select.preferences'') then
        (let setting_name = str ''Default Preference'';
             setting_value = virt_setting
         in [ChangeSetting setting_name setting_value, GetSetting setting_name])
      else [])"

text \<open>\<^verbatim>\<open>float(v)\<close>.\<close>

fun py_float :: "runtime \<Rightarrow> pyval \<Rightarrow> py_error + pyfloat" where
  "py_float rt (PStr s) = (case float_of_str rt s of None \<Rightarrow> Inl ValueError | Some f \<Rightarrow> Inr f)"
| "py_float rt (PInt i) = (case float_of_int rt i of None \<Rightarrow> Inl OverflowError | Some f \<Rightarrow> Inr f)"
| "py_float rt (PFloat f) = Inr f"
| "py_float rt (PBool b) = Inr (Finite (if b then 1 else 0))"
| "py_float rt PNone = Inl TypeError"
| "py_float rt (PList _) = Inl TypeError"
| "py_float rt (PDict _) = Inl TypeError"

text \<open>
  \<^verbatim>\<open>_set_virtual_entity_base\<close>: the events and either the error that leaves the function
  or the \<^verbatim>\<open>ha_result\<close>. Only \<^verbatim>\<open>ValueError\<close> is caught around \<^verbatim>\<open>float\<close>.
\<close>

definition set_virtual_entity_base ::
  "hagpt \<Rightarrow> runtime \<Rightarrow> pyval \<Rightarrow> pyval \<Rightarrow> event list \<times> (py_error + pystr)" where
  "set_virtual_entity_base self rt virt_entity virt_setting =
     (let send = (\<lambda>payload.
            let max_url = base_url self @ str ''/control'';
                headers = [(str ''Content-Type'', str ''application/json'')];
                rq = \<lparr>req_url = max_url, req_headers = headers, req_json = PDict payload,
                      req_timeout = 10\<rparr>
            in ([HttpPost rq], Inr (ha_result_of (post rt rq))))
      in if virt_entity = PStr (str ''media_player.base_speaker'') then
           (case py_float rt virt_setting of
              Inl ValueError \<Rightarrow> ([], Inr (str ''Request error: Volume_Float_Conversion''))
            | Inl e \<Rightarrow> ([], Inl e)
            | Inr vol_level \<Rightarrow>
                send [(str ''volume'', PDict [(str ''level'', PFloat vol_level)])])
         else send [])"

text \<open>Lines 180 to 198 of \<^verbatim>\<open>_call_ha_service\<close>: the call to the primary control plane.\<close>

definition send_ha :: "hagpt \<Rightarrow> runtime \<Rightarrow> pystr \<Rightarrow> pydict \<Rightarrow> event list \<times> (py_error + pystr)" where
  "send_ha self rt url payload =
     (let headers = [(str ''Authorization'', str ''Bearer '' @ ha_token self),
                     (str ''Content-Type'', str ''application/json'')];
          rq = \<lparr>req_url = url, req_headers = headers, req_json = PDict payload,
                req_timeout = 10\<rparr>
      in ([HttpPost rq], Inr (ha_result_of (post rt rq))))"

text \<open>\<^verbatim>\<open>if x is None: x = {}\<close>.\<close>

definition or_empty :: "pydict option \<Rightarrow> pydict" where
  "or_empty x = (case x of None \<Rightarrow> [] | Some d \<Rightarrow> d)"

text \<open>
  \<^verbatim>\<open>_call_ha_service\<close>, with the arguments typed as the callers mean them: the service a
  string, the others a dict or \<^verbatim>\<open>None\<close>. The result is the events of the invocation and
  either the error that leaves it or the \<^verbatim>\<open>ha_result\<close>.
\<close>

definition call_ha_service ::
  "hagpt \<Rightarrow> runtime \<Rightarrow> pystr \<Rightarrow> pydict option \<Rightarrow> pydict option \<Rightarrow> pydict option \<Rightarrow>
   pydict option \<Rightarrow> event list \<times> (py_error + pystr)" where
  "call_ha_service self rt service target0 data0 dataopt0 variables0 =
     (let target = or_empty target0;
          data = or_empty data0;
          dataopt = or_empty dataopt0;
          variables = or_empty variables0
      in case unpack2 (split1 service) of
           Inl e \<Rightarrow> ([], Inl e)
         | Inr (domain, service_name) \<Rightarrow>
             (let url = ha_url self @ str ''/api/services/'' @ domain @ str ''/'' @ service_name;
                  entity_id = dict_get target (str ''entity_id'')
              in if startswith service (str ''script.'') \<and> variables \<noteq> [] then
                   send_ha self rt url
                     [(str ''entity_id'', entity_id), (str ''variables'', PDict variables)]
                 else if service = str ''input_select.select_option'' \<and> data \<noteq> [] then
                   (if entity_id = PStr (str ''input_select.preferences'') then
                      (let pref_sel = dict_get data (str ''option'')
                       in (set_virtual_file_entity entity_id pref_sel, Inr (str ''200: OK'')))
                    else send_ha self rt url (dict_update [(str ''entity_id'', entity_id)] data))
                 else if startswith service (str ''notify.'') \<and> data \<noteq> [] then
                   (if startswith service (str ''notify.echo_'') then
                      send_ha self rt
                        (ha_url self @ str ''/api/services/'' @ domain @ str ''/send_message'')
                        (dict_update [(str ''entity_id'', entity_id)] data)
                    else send_ha self rt url (dict_update [] data))
                 else
                   (if entity_id = PStr (str ''switch.debug'') then
                      (set_virtual_file_entity entity_id (PStr service_name),
                       Inr (str ''200: OK''))
                    else if entity_id = PStr (str ''media_player.base_speaker'') \<and> data \<noteq> [] then
                      (let vol_level_val = dict_get data (str ''volume_level'')
                       in set_virtual_entity_base self rt entity_id vol_level_val)
                    else send_ha self rt url (dict_update [(str ''entity_id'', entity_id)] data))))"

text \<open>
  The last \<^verbatim>\<open>else\<close> of the routing chain is reached when none of the three conditions
  before it holds.
\<close>

definition default_branch :: "pystr \<Rightarrow> pydict \<Rightarrow> pydict \<Rightarrow> bool" where
  "default_branch service data variables \<longleftrightarrow>
     \<not> (startswith service (str ''script.'') \<and> variables \<noteq> []) \<and>
     \<not> (service = str ''input_select.select_option'' \<and> data \<noteq> []) \<and>
     \<not> (startswith service (str ''notify.'') \<and> data \<noteq> [])"

text \<open>A runtime whose \<^verbatim>\<open>requests.post\<close> refuses such bodies, as the library does.\<close>

definition refuses_non_compliant_bodies :: "runtime \<Rightarrow> bool" where
  "refuses_non_compliant_bodies rt \<longleftrightarrow>
     (\<forall>rq. json_compliant (req_json rq) \<or> (\<exists>e. post rt rq = NotSent e))"

section \<open>Inputs for the examples\<close>

text \<open>
  A raw input wrapped in code-fence markup: an opening line of three backticks and a
  language tag, the input, and a closing line of three backticks.
\<close>

definition wrap_in_fence :: "pystr \<Rightarrow> pystr \<Rightarrow> pystr" where
  "wrap_in_fence tag x = fence @ tag @ [newline] @ x @ [newline] @ fence"

definition example_self :: hagpt where
  "example_self =
     \<lparr>ha_url = str ''http://ha.local:8123'', base_url = str ''http://max.local'',
      ha_token = str ''token''\<rparr>"

text \<open>
  \<^verbatim>\<open>json.loads\<close> on the texts the examples decode: \<^verbatim>\<open>42\<close> is the integer 42, \<^verbatim>\<open>{}\<close> is
  the empty object, with a space after it too, and \<^verbatim>\<open>hello\<close>, \<^verbatim>\<open>a\<close> and \<^verbatim>\<open>a\<close> followed by a
  space are not JSON.
\<close>

definition example_loads :: "pystr \<Rightarrow> loads_outcome" where
  "example_loads s =
     (if s = str ''42'' then Loaded (PInt 42)
      else if s = str ''{}'' \<or> s = str ''{} '' then Loaded (PDict [])
      else JSONDecodeError)"

text \<open>
  The message of the \<^verbatim>\<open>InvalidJSONError\<close> for a body with a non-finite float (the
  message of the interpreter's JSON encoder; later interpreters append the value).
\<close>

definition out_of_range_message :: pystr where
  "out_of_range_message = str ''Out of range float values are not JSON compliant''"

text \<open>
  A runtime whose control plane answers every request that can be encoded with the given
  status and body, and whose \<^verbatim>\<open>float\<close> converts \<^verbatim>\<open>"50"\<close> and \<^verbatim>\<open>50\<close> to \<^verbatim>\<open>50.0\<close> and \<^verbatim>\<open>"1e400"\<close> to
  \<^verbatim>\<open>inf\<close>, and rejects \<^verbatim>\<open>"abc"\<close>.
\<close>

definition answering :: "int \<Rightarrow> pystr \<Rightarrow> runtime" where
  "answering code body =
     \<lparr>post = (\<lambda>rq. if json_compliant (req_json rq)
                   then Responded \<lparr>status_code = code, resp_text = body\<rparr>
                   else NotSent out_of_range_message),
      json_loads = example_loads,
      float_of_str = map_of [(str ''50'', Finite 50), (str ''1e400'', PosInf)],
      float_of_int = map_of [(50, Finite 50)]\<rparr>"

section \<open>Strings and splitting\<close>

lemma str_eq_iff [simp]: "str a = str b \<longleftrightarrow> a = b"
  unfolding str_def by (simp add: inj_map_eq_map inj_def)

lemma unpack2_split1_no_dot: "dot \<notin> set s \<Longrightarrow> unpack2 (split1 s) = Inl ValueError"
  by (simp add: split1_def)

lemma unpack2_split1_dot:
  "dot \<in> set s \<Longrightarrow>
   unpack2 (split1 s) = Inr (takeWhile (\<lambda>c. c \<noteq> dot) s, tl (dropWhile (\<lambda>c. c \<noteq> dot) s))"
  by (simp add: split1_def)

lemma split1_switch_turn_on:
  "unpack2 (split1 (str ''switch.turn_on'')) = Inr (str ''switch'', str ''turn_on'')"
  by (simp add: split1_def str_def dot_def)

lemma split1_select_option:
  "unpack2 (split1 (str ''input_select.select_option'')) =
     Inr (str ''input_select'', str ''select_option'')"
  by (simp add: split1_def str_def dot_def)

lemma split1_volume_set:
  "unpack2 (split1 (str ''media_player.volume_set'')) =
     Inr (str ''media_player'', str ''volume_set'')"
  by (simp add: split1_def str_def dot_def)

lemma split1_light_turn_on:
  "unpack2 (split1 (str ''light.turn_on'')) = Inr (str ''light'', str ''turn_on'')"
  by (simp add: split1_def str_def dot_def)

lemma str_of_int_200: "str_of_int 200 = str ''200''"
  by (simp add: str_of_int_def digits.simps str_def)

lemma str_of_int_304: "str_of_int 304 = str ''304''"
  by (simp add: str_of_int_def digits.simps str_def)

section \<open>Routing\<close>

text \<open>The last branch of the chain, once the split has succeeded.\<close>

lemma call_ha_service_default:
  assumes "unpack2 (split1 service) = Inr (domain, service_name)"
    and "default_branch service (or_empty data0) (or_empty variables0)"
  shows "call_ha_service self rt service target0 data0 dataopt0 variables0 =
     (let entity_id = dict_get (or_empty target0) (str ''entity_id'')
      in if entity_id = PStr (str ''switch.debug'') then
           (set_virtual_file_entity entity_id (PStr service_name), Inr (str ''200: OK''))
         else if entity_id = PStr (str ''media_player.base_speaker'') \<and> or_empty data0 \<noteq> [] then
           set_virtual_entity_base self rt entity_id
             (dict_get (or_empty data0) (str ''volume_level''))
         else send_ha self rt
                (ha_url self @ str ''/api/services/'' @ domain @ str ''/'' @ service_name)
                (dict_update [(str ''entity_id'', entity_id)] (or_empty data0)))"
proof -
  from assms(2) have nb:
    "(startswith service (str ''script.'') \<and> or_empty variables0 \<noteq> []) = False"
    "(service = str ''input_select.select_option'' \<and> or_empty data0 \<noteq> []) = False"
    "(startswith service (str ''notify.'') \<and> or_empty data0 \<noteq> []) = False"
    by (simp_all add: default_branch_def)
  show ?thesis
    unfolding call_ha_service_def Let_def assms(1) nb
    by simp
qed

lemma events_send_ha:
  "send_ha self rt url payload = (evs, res) \<Longrightarrow>
   \<exists>rq. evs = [HttpPost rq] \<and> res = Inr (ha_result_of (post rt rq))"
  by (auto simp: send_ha_def Let_def)

lemma events_set_virtual_entity_base:
  "set_virtual_entity_base self rt (PStr (str ''media_player.base_speaker'')) v = (evs, res) \<Longrightarrow>
   (case py_float rt v of
      Inl e \<Rightarrow> evs = [] \<and>
        res = (if e = ValueError then Inr (str ''Request error: Volume_Float_Conversion'') else Inl e)
    | Inr f \<Rightarrow> \<exists>rq. evs = [HttpPost rq] \<and> res = Inr (ha_result_of (post rt rq)))"
  by (auto simp: set_virtual_entity_base_def Let_def split: if_splits sum.splits py_error.splits)

text \<open>Every way an invocation can end.\<close>

lemma call_ha_service_cases:
  assumes "call_ha_service self rt service target0 data0 dataopt0 variables0 = (evs, res)"
  shows "if dot \<notin> set service then evs = [] \<and> res = Inl ValueError
         else if default_branch service (or_empty data0) (or_empty variables0) \<and>
                 dict_get (or_empty target0) (str ''entity_id'') =
                   PStr (str ''media_player.base_speaker'') \<and>
                 or_empty data0 \<noteq> [] \<and>
                 isl (py_float rt (dict_get (or_empty data0) (str ''volume_level'')))
         then evs = [] \<and>
              (res = Inr (str ''Request error: Volume_Float_Conversion'') \<or> isl res)
         else (\<exists>rq. evs = [HttpPost rq] \<and> res = Inr (ha_result_of (post rt rq))) \<or>
              (\<exists>n v. evs = [ChangeSetting n v, GetSetting n] \<and> res = Inr (str ''200: OK''))"
proof (cases "dot \<in> set service")
  case False
  with assms show ?thesis by (simp add: call_ha_service_def unpack2_split1_no_dot Let_def)
next
  case True
  note sp = unpack2_split1_dot [OF True]
  show ?thesis
  proof (cases "default_branch service (or_empty data0) (or_empty variables0)")
    case db: True
    show ?thesis
      using assms True db
      unfolding call_ha_service_default [OF sp db] Let_def
      by (auto simp: set_virtual_file_entity_def Let_def split: if_splits sum.splits
               dest!: events_send_ha events_set_virtual_entity_base)
  next
    case ndb: False
    show ?thesis
      using assms True ndb
      unfolding call_ha_service_def Let_def sp default_branch_def
      by (auto simp: set_virtual_file_entity_def Let_def split: if_splits
               dest: events_send_ha)
  qed
qed

section \<open>Virtual setting entities\<close>

text \<open>
  C1. A dispatch that reaches the default branch with target entity \<^verbatim>\<open>switch.debug\<close> makes
  no network call: its only effects are the write of \<^verbatim>\<open>Log Mode\<close> (\<^verbatim>\<open>Debug\<close> when the
  action name is \<^verbatim>\<open>turn_on\<close>, \<^verbatim>\<open>Info\<close> for any other) and the read-back the code logs, and
  it returns \<^verbatim>\<open>200: OK\<close>.
\<close>

theorem debug_switch_sets_log_mode:
  assumes "unpack2 (split1 service) = Inr (domain, service_name)"
    and "default_branch service (or_empty data0) (or_empty variables0)"
    and "dict_get (or_empty target0) (str ''entity_id'') = PStr (str ''switch.debug'')"
  shows "call_ha_service self rt service target0 data0 dataopt0 variables0 =
     ([ChangeSetting (str ''Log Mode'')
         (if service_name = str ''turn_on'' then PStr (str ''Debug'') else PStr (str ''Info'')),
       GetSetting (str ''Log Mode'')],
      Inr (str ''200: OK''))"
  by (simp add: call_ha_service_default [OF assms(1,2)] assms(3) set_virtual_file_entity_def
        Let_def)

theorem debug_switch_sets_log_mode_witness:
  "unpack2 (split1 (str ''switch.turn_on'')) = Inr (str ''switch'', str ''turn_on'') \<and>
   default_branch (str ''switch.turn_on'') (or_empty None) (or_empty None) \<and>
   dict_get (or_empty (Some [(str ''entity_id'', PStr (str ''switch.debug''))])) (str ''entity_id'') =
     PStr (str ''switch.debug'') \<and>
   call_ha_service example_self (answering 200 []) (str ''switch.turn_on'')
     (Some [(str ''entity_id'', PStr (str ''switch.debug''))]) None None None =
     ([ChangeSetting (str ''Log Mode'') (PStr (str ''Debug'')), GetSetting (str ''Log Mode'')],
      Inr (str ''200: OK''))"
proof -
  have h2: "default_branch (str ''switch.turn_on'') (or_empty None) (or_empty None)"
    by (simp add: default_branch_def or_empty_def)
  have h3: "dict_get (or_empty (Some [(str ''entity_id'', PStr (str ''switch.debug''))]))
              (str ''entity_id'') = PStr (str ''switch.debug'')"
    by (simp add: dict_get_def or_empty_def)
  show ?thesis
    using debug_switch_sets_log_mode [OF split1_switch_turn_on h2 h3, of example_self
        "answering 200 []" None] split1_switch_turn_on h2 h3
    by simp
qed

text \<open>
  C2. A dispatch of \<^verbatim>\<open>input_select.select_option\<close> with non-empty data and target entity
  \<^verbatim>\<open>input_select.preferences\<close> makes no network call: it writes \<^verbatim>\<open>data.get("option")\<close> to
  \<^verbatim>\<open>Default Preference\<close>, reads it back for the log, and returns \<^verbatim>\<open>200: OK\<close>.
\<close>

theorem preferences_select_sets_default_preference:
  assumes "or_empty data0 \<noteq> []"
    and "dict_get (or_empty target0) (str ''entity_id'') = PStr (str ''input_select.preferences'')"
  shows "call_ha_service self rt (str ''input_select.select_option'') target0 data0 dataopt0
           variables0 =
     ([ChangeSetting (str ''Default Preference'') (dict_get (or_empty data0) (str ''option'')),
       GetSetting (str ''Default Preference'')],
      Inr (str ''200: OK''))"
proof -
  have ns: "startswith (str ''input_select.select_option'') (str ''script.'') = False"
    by (simp add: startswith_def str_def)
  show ?thesis
    unfolding call_ha_service_def Let_def split1_select_option ns
    using assms by (simp add: set_virtual_file_entity_def Let_def)
qed

theorem preferences_select_sets_default_preference_witness:
  "or_empty (Some [(str ''option'', PStr (str ''Casual''))]) \<noteq> [] \<and>
   dict_get (or_empty (Some [(str ''entity_id'', PStr (str ''input_select.preferences''))]))
     (str ''entity_id'') = PStr (str ''input_select.preferences'') \<and>
   call_ha_service example_self (answering 200 []) (str ''input_select.select_option'')
     (Some [(str ''entity_id'', PStr (str ''input_select.preferences''))])
     (Some [(str ''option'', PStr (str ''Casual''))]) None None =
     ([ChangeSetting (str ''Default Preference'') (PStr (str ''Casual'')),
       GetSetting (str ''Default Preference'')],
      Inr (str ''200: OK''))"
proof -
  have h1: "or_empty (Some [(str ''option'', PStr (str ''Casual''))]) \<noteq> []"
    by (simp add: or_empty_def)
  have h2: "dict_get (or_empty (Some [(str ''entity_id'', PStr (str ''input_select.preferences''))]))
              (str ''entity_id'') = PStr (str ''input_select.preferences'')"
    by (simp add: dict_get_def or_empty_def)
  show ?thesis
    using preferences_select_sets_default_preference [OF h1 h2, of example_self
        "answering 200 []" None None] h1 h2
    by (simp add: dict_get_def or_empty_def)
qed

section \<open>The base-station volume entity\<close>

text \<open>
  For a value that converts, \<^verbatim>\<open>requests.post\<close> is called on the secondary base URL,
  without a bearer token.
\<close>

lemma volume_converts:
  assumes "unpack2 (split1 service) = Inr (domain, service_name)"
    and "default_branch service (or_empty data0) (or_empty variables0)"
    and "dict_get (or_empty target0) (str ''entity_id'') = PStr (str ''media_player.base_speaker'')"
    and "or_empty data0 \<noteq> []"
    and "py_float rt (dict_get (or_empty data0) (str ''volume_level'')) = Inr level"
  shows "call_ha_service self rt service target0 data0 dataopt0 variables0 =
     (let rq = \<lparr>req_url = base_url self @ str ''/control'',
                req_headers = [(str ''Content-Type'', str ''application/json'')],
                req_json = PDict [(str ''volume'', PDict [(str ''level'', PFloat level)])],
                req_timeout = 10\<rparr>
      in ([HttpPost rq], Inr (ha_result_of (post rt rq))))"
  by (simp add: call_ha_service_default [OF assms(1,2)] assms(3,4,5) set_virtual_entity_base_def
        Let_def)

text \<open>A \<^verbatim>\<open>ValueError\<close> of the conversion gives the error result and no event.\<close>

lemma volume_value_error:
  assumes "unpack2 (split1 service) = Inr (domain, service_name)"
    and "default_branch service (or_empty data0) (or_empty variables0)"
    and "dict_get (or_empty target0) (str ''entity_id'') = PStr (str ''media_player.base_speaker'')"
    and "or_empty data0 \<noteq> []"
    and "py_float rt (dict_get (or_empty data0) (str ''volume_level'')) = Inl ValueError"
  shows "call_ha_service self rt service target0 data0 dataopt0 variables0 =
     ([], Inr (str ''Request error: Volume_Float_Conversion''))"
  by (simp add: call_ha_service_default [OF assms(1,2)] assms(3,4,5) set_virtual_entity_base_def
        Let_def)

lemma volume_50_is_sent:
  "call_ha_service example_self (answering 200 []) (str ''media_player.volume_set'')
     (Some [(str ''entity_id'', PStr (str ''media_player.base_speaker''))])
     (Some [(str ''volume_level'', PStr (str ''50''))]) None None =
     ([HttpPost \<lparr>req_url = str ''http://max.local/control'',
                 req_headers = [(str ''Content-Type'', str ''application/json'')],
                 req_json = PDict [(str ''volume'', PDict [(str ''level'', PFloat (Finite 50))])],
                 req_timeout = 10\<rparr>],
      Inr (str ''200: OK''))"
proof -
  have db: "default_branch (str ''media_player.volume_set'')
              (or_empty (Some [(str ''volume_level'', PStr (str ''50''))])) (or_empty None)"
    by (simp add: default_branch_def startswith_def str_def)
  show ?thesis
    unfolding call_ha_service_default [OF split1_volume_set db]
    by (simp add: or_empty_def dict_get_def set_virtual_entity_base_def Let_def answering_def
          example_self_def ha_result_of_def ok_def str_of_int_200 str_def)
qed

text \<open>
  C3. The specification promises the client-side error result whenever the volume value
  does not convert. The code catches only \<^verbatim>\<open>ValueError\<close>: when the non-empty data has no
  \<^verbatim>\<open>volume_level\<close> key the value is \<^verbatim>\<open>None\<close>, \<^verbatim>\<open>float(None)\<close> raises \<^verbatim>\<open>TypeError\<close>, and the
  error leaves the dispatcher instead of becoming a result. No network call is made.
\<close>

theorem volume_missing_value_raises:
  "call_ha_service self rt (str ''media_player.volume_set'')
     (Some [(str ''entity_id'', PStr (str ''media_player.base_speaker''))])
     (Some [(str ''volume'', PInt 50)]) dataopt0 variables0 = ([], Inl TypeError)"
proof -
  have db: "default_branch (str ''media_player.volume_set'')
              (or_empty (Some [(str ''volume'', PInt 50)])) (or_empty variables0)"
    by (simp add: default_branch_def startswith_def str_def)
  show ?thesis
    unfolding call_ha_service_default [OF split1_volume_set db]
    by (simp add: or_empty_def dict_get_def set_virtual_entity_base_def Let_def)
qed

section \<open>Notification channels\<close>

text \<open>
  C4. For a service that starts with \<^verbatim>\<open>notify.echo_\<close> and non-empty data, the request goes
  to the \<^verbatim>\<open>send_message\<close> action of the \<^verbatim>\<open>notify\<close> domain on the primary control plane,
  and its payload is the \<^verbatim>\<open>entity_id\<close> entry updated with the data: \<^verbatim>\<open>payload.update(data)\<close>
  runs after both arms of the inner conditional.
\<close>

theorem notify_echo_payload_and_url:
  assumes "startswith service (str ''notify.echo_'')"
    and "or_empty data0 \<noteq> []"
  shows "call_ha_service self rt service target0 data0 dataopt0 variables0 =
     (let rq = \<lparr>req_url = ha_url self @ str ''/api/services/'' @ str ''notify'' @
                            str ''/send_message'',
                req_headers = [(str ''Authorization'', str ''Bearer '' @ ha_token self),
                               (str ''Content-Type'', str ''application/json'')],
                req_json = PDict (dict_update
                   [(str ''entity_id'', dict_get (or_empty target0) (str ''entity_id''))]
                   (or_empty data0)),
                req_timeout = 10\<rparr>
      in ([HttpPost rq], Inr (ha_result_of (post rt rq))))"
proof -
  from assms(1) obtain rest where s: "service = str ''notify.echo_'' @ rest"
    by (auto simp: startswith_def prefix_def)
  have sp: "unpack2 (split1 service) = Inr (str ''notify'', str ''echo_'' @ rest)"
    by (simp add: s split1_def str_def dot_def)
  have c: "startswith service (str ''script.'') = False"
    "(service = str ''input_select.select_option'') = False"
    "startswith service (str ''notify.'') = True"
    "startswith service (str ''notify.echo_'') = True"
    by (simp_all add: s startswith_def str_def)
  show ?thesis
    unfolding call_ha_service_def Let_def sp c
    using assms(2) by (simp add: send_ha_def Let_def)
qed

theorem notify_echo_payload_and_url_witness:
  "startswith (str ''notify.echo_show'') (str ''notify.echo_'') \<and>
   or_empty (Some [(str ''message'', PStr (str ''hi''))]) \<noteq> [] \<and>
   call_ha_service example_self (answering 200 []) (str ''notify.echo_show'')
     (Some [(str ''entity_id'', PStr (str ''media_player.echo''))])
     (Some [(str ''message'', PStr (str ''hi''))]) None None =
     ([HttpPost \<lparr>req_url = str ''http://ha.local:8123/api/services/notify/send_message'',
                 req_headers = [(str ''Authorization'', str ''Bearer token''),
                                (str ''Content-Type'', str ''application/json'')],
                 req_json = PDict [(str ''entity_id'', PStr (str ''media_player.echo'')),
                                   (str ''message'', PStr (str ''hi''))],
                 req_timeout = 10\<rparr>],
      Inr (str ''200: OK''))"
proof -
  have h1: "startswith (str ''notify.echo_show'') (str ''notify.echo_'')"
    by (simp add: startswith_def str_def)
  have h2: "or_empty (Some [(str ''message'', PStr (str ''hi''))]) \<noteq> []"
    by (simp add: or_empty_def)
  show ?thesis
    using notify_echo_payload_and_url [OF h1 h2, of example_self "answering 200 []"
        "Some [(str ''entity_id'', PStr (str ''media_player.echo''))]" None None] h1 h2
    by (simp add: or_empty_def dict_get_def dict_update_def Let_def answering_def
          example_self_def ha_result_of_def ok_def str_of_int_200 str_def)
qed

text \<open>
  The payload of a \<^verbatim>\<open>notify.echo_\<close> call with data \<^verbatim>\<open>{"message": "hi"}\<close> has the message
  beside the \<^verbatim>\<open>entity_id\<close>.
\<close>

theorem notify_echo_payload_counterexample:
  "fst (call_ha_service example_self (answering 200 []) (str ''notify.echo_show'')
     (Some [(str ''entity_id'', PStr (str ''media_player.echo''))])
     (Some [(str ''message'', PStr (str ''hi''))]) None None) \<noteq>
     [HttpPost \<lparr>req_url = str ''http://ha.local:8123/api/services/notify/send_message'',
                req_headers = [(str ''Authorization'', str ''Bearer token''),
                               (str ''Content-Type'', str ''application/json'')],
                req_json = PDict [(str ''entity_id'', PStr (str ''media_player.echo''))],
                req_timeout = 10\<rparr>]"
proof -
  have sp: "unpack2 (split1 (str ''notify.echo_show'')) = Inr (str ''notify'', str ''echo_show'')"
    by (simp add: split1_def str_def dot_def)
  have c: "startswith (str ''notify.echo_show'') (str ''script.'') = False"
    "startswith (str ''notify.echo_show'') (str ''notify.'') = True"
    "startswith (str ''notify.echo_show'') (str ''notify.echo_'') = True"
    by (simp_all add: startswith_def str_def)
  show ?thesis
    unfolding call_ha_service_def Let_def sp c
    by (simp add: or_empty_def send_ha_def dict_update_def Let_def)
qed

section \<open>The normalised result\<close>

text \<open>
  C5. For every invocation, either \<^verbatim>\<open>requests.post\<close> was called exactly once and the
  \<^verbatim>\<open>ha_result\<close> is the status and \<^verbatim>\<open>OK\<close> when \<^verbatim>\<open>response.ok\<close> holds (any status outside 400
  to 599), the status and the response body for a status from 400 to 599, and
  \<^verbatim>\<open>Request error:\<close> with the description when the call raised a \<^verbatim>\<open>RequestException\<close>, be it
  a transport failure or a request that could not be prepared: the error is returned, not
  raised. Or \<^verbatim>\<open>requests.post\<close> was not called, and the invocation returns \<^verbatim>\<open>200: OK\<close> or
  the volume conversion error, or raises.
\<close>

theorem ha_result_normalised:
  assumes "call_ha_service self rt service target0 data0 dataopt0 variables0 = (evs, res)"
  shows "(\<exists>rq. evs = [HttpPost rq] \<and>
            res = Inr (case post rt rq of
                         Responded r \<Rightarrow>
                           if 400 \<le> status_code r \<and> status_code r < 600
                           then str_of_int (status_code r) @ str '': '' @ resp_text r
                           else str_of_int (status_code r) @ str '': OK''
                       | TransportFailure e \<Rightarrow> str ''Request error: '' @ e
                       | NotSent e \<Rightarrow> str ''Request error: '' @ e)) \<or>
         (post_calls evs = 0 \<and>
            (res = Inr (str ''200: OK'') \<or>
             res = Inr (str ''Request error: Volume_Float_Conversion'') \<or>
             isl res))"
proof -
  have n: "ha_result_of out =
             (case out of
                Responded r \<Rightarrow>
                  if 400 \<le> status_code r \<and> status_code r < 600
                  then str_of_int (status_code r) @ str '': '' @ resp_text r
                  else str_of_int (status_code r) @ str '': OK''
              | TransportFailure e \<Rightarrow> str ''Request error: '' @ e
              | NotSent e \<Rightarrow> str ''Request error: '' @ e)" for out
    by (simp add: ha_result_of_def ok_def split: post_outcome.splits)
  from call_ha_service_cases [OF assms] show ?thesis
    unfolding n [symmetric]
    by (auto simp: post_calls_def split: if_splits)
qed

lemma light_turn_on_call:
  "call_ha_service example_self rt (str ''light.turn_on'')
     (Some [(str ''entity_id'', PStr (str ''light.kitchen''))]) None None None =
   (let rq = \<lparr>req_url = str ''http://ha.local:8123/api/services/light/turn_on'',
              req_headers = [(str ''Authorization'', str ''Bearer token''),
                             (str ''Content-Type'', str ''application/json'')],
              req_json = PDict [(str ''entity_id'', PStr (str ''light.kitchen''))],
              req_timeout = 10\<rparr>
    in ([HttpPost rq], Inr (ha_result_of (post rt rq))))"
proof -
  have db: "default_branch (str ''light.turn_on'') (or_empty None) (or_empty None)"
    by (simp add: default_branch_def or_empty_def)
  show ?thesis
    unfolding call_ha_service_default [OF split1_light_turn_on db]
    by (simp add: or_empty_def dict_get_def dict_update_def send_ha_def Let_def
          example_self_def str_def)
qed

theorem ha_result_normalised_witness:
  "call_ha_service example_self (answering 404 (str ''Not Found'')) (str ''light.turn_on'')
     (Some [(str ''entity_id'', PStr (str ''light.kitchen''))]) None None None =
     ([HttpPost \<lparr>req_url = str ''http://ha.local:8123/api/services/light/turn_on'',
                 req_headers = [(str ''Authorization'', str ''Bearer token''),
                                (str ''Content-Type'', str ''application/json'')],
                 req_json = PDict [(str ''entity_id'', PStr (str ''light.kitchen''))],
                 req_timeout = 10\<rparr>],
      Inr (str ''404: Not Found''))"
proof -
  let ?rq = "\<lparr>req_url = str ''http://ha.local:8123/api/services/light/turn_on'',
              req_headers = [(str ''Authorization'', str ''Bearer token''),
                             (str ''Content-Type'', str ''application/json'')],
              req_json = PDict [(str ''entity_id'', PStr (str ''light.kitchen''))],
              req_timeout = 10\<rparr>"
  obtain evs res where c:
    "call_ha_service example_self (answering 404 (str ''Not Found'')) (str ''light.turn_on'')
       (Some [(str ''entity_id'', PStr (str ''light.kitchen''))]) None None None = (evs, res)"
    by (cases "call_ha_service example_self (answering 404 (str ''Not Found''))
          (str ''light.turn_on'') (Some [(str ''entity_id'', PStr (str ''light.kitchen''))])
          None None None")
  have evs: "evs = [HttpPost ?rq]"
    using c by (simp add: light_turn_on_call Let_def)
  with ha_result_normalised [OF c]
  have "res = Inr (str_of_int 404 @ str '': '' @ str ''Not Found'')"
    by (simp add: answering_def post_calls_def)
  with c evs show ?thesis by (simp add: str_of_int_def digits.simps str_def)
qed

text \<open>
  A response with status 304 is not a 2xx response, and its \<^verbatim>\<open>ha_result\<close> is \<^verbatim>\<open>304: OK\<close>.
\<close>

theorem ha_result_ok_on_304_counterexample:
  "snd (call_ha_service example_self (answering 304 []) (str ''light.turn_on'')
     (Some [(str ''entity_id'', PStr (str ''light.kitchen''))]) None None None) =
     Inr (str ''304: OK'') \<and>
   \<not> (200 \<le> (304 :: int) \<and> (304 :: int) < 300)"
  unfolding light_turn_on_call Let_def
  by (simp add: answering_def ha_result_of_def ok_def str_of_int_304 str_def)

text \<open>
  A volume of \<^verbatim>\<open>"1e400"\<close> converts to \<^verbatim>\<open>inf\<close>; \<^verbatim>\<open>requests.post\<close> is called and refuses the body,
  so nothing is sent and the result carries the description of the error.
\<close>

lemma volume_inf_is_not_sent:
  "call_ha_service example_self (answering 200 []) (str ''media_player.volume_set'')
     (Some [(str ''entity_id'', PStr (str ''media_player.base_speaker''))])
     (Some [(str ''volume_level'', PStr (str ''1e400''))]) None None =
     ([HttpPost \<lparr>req_url = str ''http://max.local/control'',
                 req_headers = [(str ''Content-Type'', str ''application/json'')],
                 req_json = PDict [(str ''volume'', PDict [(str ''level'', PFloat PosInf)])],
                 req_timeout = 10\<rparr>],
      Inr (str ''Request error: '' @ out_of_range_message))"
proof -
  have db: "default_branch (str ''media_player.volume_set'')
              (or_empty (Some [(str ''volume_level'', PStr (str ''1e400''))])) (or_empty None)"
    by (simp add: default_branch_def startswith_def str_def)
  show ?thesis
    unfolding call_ha_service_default [OF split1_volume_set db]
    by (simp add: or_empty_def dict_get_def set_virtual_entity_base_def Let_def answering_def
          example_self_def ha_result_of_def str_def)
qed

lemma volume_inf_no_network_call:
  "network_calls (answering 200 [])
     (fst (call_ha_service example_self (answering 200 []) (str ''media_player.volume_set'')
        (Some [(str ''entity_id'', PStr (str ''media_player.base_speaker''))])
        (Some [(str ''volume_level'', PStr (str ''1e400''))]) None None)) = 0"
  unfolding volume_inf_is_not_sent
  by (simp add: network_calls_def answering_def)

section \<open>Side effects of one invocation\<close>





text \<open>
  With a library that refuses such bodies, a volume that converts to \<^verbatim>\<open>inf\<close>, \<^verbatim>\<open>-inf\<close> or
  \<^verbatim>\<open>nan\<close> leads to no network call and no settings mutation.
\<close>

lemma answering_refuses_non_compliant_bodies:
  "refuses_non_compliant_bodies (answering code body)"
  by (simp add: refuses_non_compliant_bodies_def answering_def)

lemma non_finite_volume_no_side_effect:
  assumes "unpack2 (split1 service) = Inr (domain, service_name)"
    and "default_branch service (or_empty data0) (or_empty variables0)"
    and "dict_get (or_empty target0) (str ''entity_id'') = PStr (str ''media_player.base_speaker'')"
    and "or_empty data0 \<noteq> []"
    and "py_float rt (dict_get (or_empty data0) (str ''volume_level'')) = Inr level"
    and "level = PosInf \<or> level = NegInf \<or> level = NaN"
    and "refuses_non_compliant_bodies rt"
  shows "network_calls rt
           (fst (call_ha_service self rt service target0 data0 dataopt0 variables0)) = 0 \<and>
         settings_mutations
           (fst (call_ha_service self rt service target0 data0 dataopt0 variables0)) = 0"
proof -
  let ?rq = "\<lparr>req_url = base_url self @ str ''/control'',
              req_headers = [(str ''Content-Type'', str ''application/json'')],
              req_json = PDict [(str ''volume'', PDict [(str ''level'', PFloat level)])],
              req_timeout = 10\<rparr>"
  have "\<not> json_compliant (req_json ?rq)"
    using assms(6) by auto
  with assms(7) obtain e where "post rt ?rq = NotSent e"
    unfolding refuses_non_compliant_bodies_def by blast
  then show ?thesis
    unfolding volume_converts [OF assms(1-5)] Let_def
    by (simp add: network_calls_def settings_mutations_def)
qed

section \<open>Services without a separator\<close>

text \<open>
  C9. For every service string without a dot, non-empty or not, the unpacking of
  \<^verbatim>\<open>service.split(".", 1)\<close> raises \<^verbatim>\<open>ValueError\<close> before any routing decision and before any
  effect; so an invocation that returns had a dot in its service string.
\<close>

theorem service_without_dot_raises:
  assumes "dot \<notin> set service"
  shows "call_ha_service self rt service target0 data0 dataopt0 variables0 = ([], Inl ValueError)"
  using assms by (simp add: call_ha_service_def unpack2_split1_no_dot Let_def)

theorem service_without_dot_raises_witness:
  "dot \<notin> set (str ''toggle'') \<and>
   call_ha_service example_self (answering 200 []) (str ''toggle'')
     (Some [(str ''entity_id'', PStr (str ''light.kitchen''))]) None None None =
     ([], Inl ValueError)"
proof -
  have h: "dot \<notin> set (str ''toggle'')"
    by (simp add: str_def dot_def)
  show ?thesis
    using service_without_dot_raises [OF h, of example_self "answering 200 []"
        "Some [(str ''entity_id'', PStr (str ''light.kitchen''))]" None None None] h
    by simp
qed

section \<open>The base-station entity without data\<close>

text \<open>
  C10. In the default branch, a call on \<^verbatim>\<open>media_player.base_speaker\<close> with empty data is
  not intercepted: one request goes to the primary control plane, at the URL of the
  service, with the bearer-token header and the payload that holds only the \<^verbatim>\<open>entity_id\<close>.
\<close>

theorem base_speaker_empty_data_ordinary_call:
  assumes "unpack2 (split1 service) = Inr (domain, service_name)"
    and "default_branch service (or_empty data0) (or_empty variables0)"
    and "dict_get (or_empty target0) (str ''entity_id'') = PStr (str ''media_player.base_speaker'')"
    and "or_empty data0 = []"
  shows "call_ha_service self rt service target0 data0 dataopt0 variables0 =
     (let rq = \<lparr>req_url = ha_url self @ str ''/api/services/'' @ domain @ str ''/'' @
                            service_name,
                req_headers = [(str ''Authorization'', str ''Bearer '' @ ha_token self),
                               (str ''Content-Type'', str ''application/json'')],
                req_json = PDict [(str ''entity_id'', PStr (str ''media_player.base_speaker''))],
                req_timeout = 10\<rparr>
      in ([HttpPost rq], Inr (ha_result_of (post rt rq))))"
  by (simp add: call_ha_service_default [OF assms(1,2)] assms(3,4) send_ha_def dict_update_def
        Let_def)

theorem base_speaker_empty_data_ordinary_call_witness:
  "unpack2 (split1 (str ''media_player.volume_set'')) =
     Inr (str ''media_player'', str ''volume_set'') \<and>
   default_branch (str ''media_player.volume_set'') (or_empty (Some [])) (or_empty None) \<and>
   dict_get (or_empty (Some [(str ''entity_id'', PStr (str ''media_player.base_speaker''))]))
     (str ''entity_id'') = PStr (str ''media_player.base_speaker'') \<and>
   or_empty (Some []) = [] \<and>
   call_ha_service example_self (answering 200 []) (str ''media_player.volume_set'')
     (Some [(str ''entity_id'', PStr (str ''media_player.base_speaker''))]) (Some []) None None =
     ([HttpPost \<lparr>req_url = str ''http://ha.local:8123/api/services/media_player/volume_set'',
                 req_headers = [(str ''Authorization'', str ''Bearer token''),
                                (str ''Content-Type'', str ''application/json'')],
                 req_json = PDict [(str ''entity_id'', PStr (str ''media_player.base_speaker''))],
                 req_timeout = 10\<rparr>],
      Inr (str ''200: OK''))"
proof -
  have h2: "default_branch (str ''media_player.volume_set'') (or_empty (Some [])) (or_empty None)"
    by (simp add: default_branch_def or_empty_def)
  have h3: "dict_get (or_empty (Some [(str ''entity_id'', PStr (str ''media_player.base_speaker''))]))
              (str ''entity_id'') = PStr (str ''media_player.base_speaker'')"
    by (simp add: dict_get_def or_empty_def)
  have h4: "or_empty (Some []) = []"
    by (simp add: or_empty_def)
  have r: "call_ha_service example_self (answering 200 []) (str ''media_player.volume_set'')
     (Some [(str ''entity_id'', PStr (str ''media_player.base_speaker''))]) (Some []) None None =
     ([HttpPost \<lparr>req_url = str ''http://ha.local:8123/api/services/media_player/volume_set'',
                 req_headers = [(str ''Authorization'', str ''Bearer token''),
                                (str ''Content-Type'', str ''application/json'')],
                 req_json = PDict [(str ''entity_id'', PStr (str ''media_player.base_speaker''))],
                 req_timeout = 10\<rparr>],
      Inr (str ''200: OK''))"
    unfolding base_speaker_empty_data_ordinary_call [OF split1_volume_set h2 h3 h4] Let_def
    by (simp add: answering_def example_self_def ha_result_of_def ok_def str_of_int_200 str_def)
  show ?thesis using split1_volume_set h2 h3 h4 r by simp
qed

section \<open>Stripping\<close>

lemma rstrip_no_trailing: "s \<noteq> [] \<Longrightarrow> \<not> py_isspace (last s) \<Longrightarrow> rstrip s = s"
  by (cases s rule: rev_cases) (simp_all add: rstrip_def)

lemma lstrip_no_leading: "s \<noteq> [] \<Longrightarrow> \<not> py_isspace (hd s) \<Longrightarrow> lstrip s = s"
  by (cases s) (simp_all add: lstrip_def)

lemma backtick_not_space: "\<not> py_isspace 96"
  by (simp add: py_isspace_def)

lemma newline_space: "py_isspace newline"
  by (simp add: py_isspace_def newline_def)

lemma newline_not_letter: "\<not> ascii_letter newline"
  by (simp add: ascii_letter_def newline_def)

lemma stripped_last_not_space:
  assumes "rstrip y = y" "y \<noteq> []"
  shows "\<not> py_isspace (last y)"
proof
  assume sp: "py_isspace (last y)"
  from assms(2) obtain ys c where y: "y = ys @ [c]" by (cases y rule: rev_cases) auto
  have "length (dropWhile py_isspace (rev ys)) \<le> length ys"
    using length_dropWhile_le [of py_isspace "rev ys"] by simp
  with sp y have "length (rstrip y) < length y" by (simp add: rstrip_def)
  with assms(1) show False by simp
qed

lemma strip_no_trailing:
  assumes "rstrip x = x"
  shows "strip x = lstrip x"
proof (cases "lstrip x = []")
  case True
  then show ?thesis by (simp add: strip_def rstrip_def)
next
  case False
  then have ne: "dropWhile py_isspace x \<noteq> []" by (simp add: lstrip_def)
  then have xne: "x \<noteq> []" by auto
  have "\<not> py_isspace (last x)" by (rule stripped_last_not_space [OF assms xne])
  moreover have "last (dropWhile py_isspace x) = last x"
    using ne by (metis last_appendR takeWhile_dropWhile_id)
  ultimately have "rstrip (lstrip x) = lstrip x"
    using ne by (intro rstrip_no_trailing) (simp_all add: lstrip_def)
  then show ?thesis by (simp add: strip_def)
qed

section \<open>Fences\<close>

lemma strip_wrap: "strip (wrap_in_fence tag x) = wrap_in_fence tag x"
proof -
  have "lstrip (wrap_in_fence tag x) = wrap_in_fence tag x"
    by (rule lstrip_no_leading) (simp_all add: wrap_in_fence_def fence_def backtick_not_space)
  moreover have "rstrip (wrap_in_fence tag x) = wrap_in_fence tag x"
    by (rule rstrip_no_trailing) (simp_all add: wrap_in_fence_def fence_def backtick_not_space)
  ultimately show ?thesis by (simp add: strip_def)
qed

lemma sub_leading_fence_wrap:
  assumes "\<forall>c\<in>set tag. ascii_letter c"
  shows "sub_leading_fence (wrap_in_fence tag x) = x @ newline # fence"
proof -
  have "dropWhile ascii_letter (tag @ newline # x @ newline # fence) = newline # x @ newline # fence"
    using assms by (simp add: dropWhile_append3 newline_not_letter)
  then show ?thesis
    by (simp add: sub_leading_fence_def wrap_in_fence_def startswith_def fence_def)
qed

lemma strip_before_fence:
  "strip (x @ newline # fence) = (if lstrip x = [] then fence else lstrip x @ newline # fence)"
proof (cases "lstrip x = []")
  case True
  then have "\<forall>c\<in>set x. py_isspace c"
    by (simp add: lstrip_def dropWhile_eq_Nil_conv)
  then have "lstrip (x @ newline # fence) = fence"
    by (simp add: lstrip_def newline_space fence_def backtick_not_space)
  moreover have "rstrip fence = fence"
    by (rule rstrip_no_trailing) (simp_all add: fence_def backtick_not_space)
  ultimately show ?thesis using True by (simp add: strip_def)
next
  case False
  then have "\<exists>c\<in>set x. \<not> py_isspace c"
    by (auto simp add: lstrip_def dropWhile_eq_Nil_conv)
  then have "lstrip (x @ newline # fence) = lstrip x @ newline # fence"
    by (auto simp add: lstrip_def dropWhile_append1)
  moreover have "rstrip (lstrip x @ newline # fence) = lstrip x @ newline # fence"
    by (rule rstrip_no_trailing) (simp_all add: fence_def backtick_not_space)
  ultimately show ?thesis using False by (simp add: strip_def)
qed

lemma sub_trailing_fence_closing: "sub_trailing_fence (y @ newline # fence) = y"
  by (simp add: sub_trailing_fence_def endswith_def fence_def chop_newline_def suffix_def)

lemma sub_trailing_fence_only: "sub_trailing_fence fence = []"
  by (simp add: sub_trailing_fence_def endswith_def fence_def chop_newline_def)

text \<open>What is left of a wrapped input: the input without its leading whitespace.\<close>

lemma fence_stripped_wrap:
  assumes "\<forall>c\<in>set tag. ascii_letter c"
  shows "fence_stripped (wrap_in_fence tag x) = lstrip x"
  by (simp add: fence_stripped_def Let_def strip_wrap sub_leading_fence_wrap [OF assms]
        strip_before_fence sub_trailing_fence_closing sub_trailing_fence_only)

lemma rstrip_keeps_head:
  assumes "\<not> py_isspace c"
  shows "rstrip (c # ys) = c # rstrip ys"
proof -
  have "dropWhile py_isspace (rev ys @ [c]) = dropWhile py_isspace (rev ys) @ [c]"
    using assms by (simp add: dropWhile_append)
  then show ?thesis by (simp add: rstrip_def)
qed

lemma rstrip_idem: "rstrip (rstrip y) = rstrip y"
  by (simp add: rstrip_def dropWhile_idem)

lemma lstrip_strip: "lstrip (strip x) = strip x"
proof (cases "lstrip x")
  case Nil
  then have "strip x = []" by (simp add: strip_def rstrip_def)
  then show ?thesis by (simp add: lstrip_def)
next
  case (Cons c ys)
  then have "\<not> py_isspace c"
    unfolding lstrip_def by (metis hd_dropWhile list.distinct(1) list.sel(1))
  then show ?thesis
    using Cons by (simp add: strip_def rstrip_keeps_head lstrip_def)
qed

lemma strip_idem: "strip (strip x) = strip x"
proof -
  have "rstrip (strip x) = strip x" by (simp add: strip_def rstrip_idem)
  then have "strip (strip x) = lstrip (strip x)" by (rule strip_no_trailing)
  then show ?thesis by (simp add: lstrip_strip)
qed

text \<open>What is left of an input that, once stripped, has no fence at either end.\<close>

lemma fence_stripped_no_fence:
  assumes "\<not> startswith (strip x) fence"
    and "\<not> endswith (strip x) fence"
  shows "fence_stripped x = strip x"
proof -
  let ?y = "strip x"
  have s2: "sub_leading_fence ?y = ?y" using assms(1) by (simp add: sub_leading_fence_def)
  have ry: "rstrip ?y = ?y" by (simp add: strip_def rstrip_idem)
  have n2: "\<not> endswith ?y (fence @ [newline])"
  proof
    assume e: "endswith ?y (fence @ [newline])"
    then have "?y \<noteq> []" by (auto simp: endswith_def fence_def)
    moreover from e have "last ?y = newline" by (auto simp: endswith_def suffix_def)
    ultimately show False using stripped_last_not_space [OF ry] newline_space by simp
  qed
  have s4: "sub_trailing_fence ?y = ?y" using assms(2) n2 by (simp add: sub_trailing_fence_def)
  show ?thesis by (simp add: fence_stripped_def Let_def s2 strip_idem s4)
qed

lemma fence_stripped_42: "fence_stripped (str ''42'') = str ''42''"
  by (simp add: fence_stripped_def Let_def strip_def lstrip_def rstrip_def py_isspace_def str_def
        sub_leading_fence_def sub_trailing_fence_def startswith_def endswith_def fence_def
        suffix_to_prefix)

lemma fence_stripped_hello: "fence_stripped (str ''hello'') = str ''hello''"
  by (simp add: fence_stripped_def Let_def strip_def lstrip_def rstrip_def py_isspace_def str_def
        sub_leading_fence_def sub_trailing_fence_def startswith_def endswith_def fence_def
        suffix_to_prefix)

lemma fence_stripped_a_space: "fence_stripped (str ''a '') = str ''a''"
  by (simp add: fence_stripped_def Let_def strip_def lstrip_def rstrip_def py_isspace_def str_def
        sub_leading_fence_def sub_trailing_fence_def startswith_def endswith_def fence_def
        suffix_to_prefix)

lemma fence_stripped_empty_object: "fence_stripped (str ''{}'') = str ''{}''"
  by (simp add: fence_stripped_def Let_def strip_def lstrip_def rstrip_def py_isspace_def str_def
        sub_leading_fence_def sub_trailing_fence_def startswith_def endswith_def fence_def
        suffix_to_prefix)

lemma json_is_a_tag: "\<forall>c\<in>set (str ''json''). ascii_letter c"
  by (simp add: str_def ascii_letter_def)

section \<open>The parser\<close>

text \<open>
  When the fence-stripped input does not decode, the parser returns the intent with
  service \<^verbatim>\<open>None\<close>, empty target, variables and data, and the fence-stripped input as
  response text.
\<close>

lemma parser_fallback:
  assumes "json_loads rt (fence_stripped ai_response) = JSONDecodeError"
  shows "clean_ai_response rt ai_response =
     Inr \<lparr>i_service = PNone, i_target = PDict [], i_variables = PDict [],
          i_response_text = PStr (fence_stripped ai_response), i_data = PDict []\<rparr>"
  using assms by (simp add: clean_ai_response_def Let_def)

lemma parser_fallback_hello:
  "clean_ai_response (answering 200 []) (str ''hello'') =
     Inr \<lparr>i_service = PNone, i_target = PDict [], i_variables = PDict [],
          i_response_text = PStr (str ''hello''), i_data = PDict []\<rparr>"
  by (simp add: clean_ai_response_def Let_def fence_stripped_hello answering_def
        example_loads_def)

text \<open>An input that decodes to an object gives the intent read from the object.\<close>

lemma parser_reads_object:
  assumes "json_loads rt (fence_stripped ai_response) = Loaded (PDict d)"
  shows "clean_ai_response rt ai_response =
     Inr \<lparr>i_service = dict_get d (str ''service''),
          i_target = dict_get_default d (str ''target'') (PDict []),
          i_variables = dict_get_default d (str ''variables'') (PDict []),
          i_response_text = dict_get_default d (str ''response_text'') (PStr []),
          i_data = dict_get_default d (str ''data'') (PDict [])\<rparr>"
  using assms by (simp add: clean_ai_response_def Let_def)

text \<open>
  An input that decodes to anything but an object makes the first \<^verbatim>\<open>.get\<close> raise
  \<^verbatim>\<open>AttributeError\<close>, which the \<^verbatim>\<open>except json.JSONDecodeError\<close> clause around it does not
  catch.
\<close>

lemma parser_raises_on_every_non_object:
  assumes "json_loads rt (fence_stripped ai_response) = Loaded v"
    and "\<forall>d. v \<noteq> PDict d"
  shows "clean_ai_response rt ai_response = Inl AttributeError"
  using assms by (cases v) (simp_all add: clean_ai_response_def Let_def)

text \<open>
  C7. The parser is to return an intent on every input. On the reply \<^verbatim>\<open>42\<close>, plain text
  that is also a JSON number, \<^verbatim>\<open>json.loads\<close> returns the integer 42, \<^verbatim>\<open>.get\<close> on it raises
  \<^verbatim>\<open>AttributeError\<close>, and the error leaves the parser: the fallback that handles a reply
  which is not JSON misses a reply which is JSON but not an object.
\<close>

theorem parser_raises_on_non_object:
  "clean_ai_response (answering 200 []) (str ''42'') = Inl AttributeError"
  by (simp add: clean_ai_response_def Let_def fence_stripped_42 answering_def example_loads_def)

text \<open>
  C8. Wrapping an input in a fence whose tag is made of ASCII letters and parsing strips
  exactly the two fences: what is decoded is the input without its leading whitespace.
  The wrapped input yields the same intent as the input when the input, stripped of the
  whitespace around it, neither begins nor ends with three backticks, and it either has
  no trailing whitespace or decodes to the same value with and without it.
\<close>

theorem fenced_input_same_intent:
  assumes "\<forall>c\<in>set tag. ascii_letter c"
  shows "fence_stripped (wrap_in_fence tag x) = lstrip x \<and>
         (\<not> startswith (strip x) fence \<and> \<not> endswith (strip x) fence \<and>
          (rstrip x = x \<or>
           (\<exists>v. json_loads rt (lstrip x) = Loaded v \<and> json_loads rt (strip x) = Loaded v)) \<longrightarrow>
          clean_ai_response rt (wrap_in_fence tag x) = clean_ai_response rt x)"
proof (intro conjI impI)
  show w: "fence_stripped (wrap_in_fence tag x) = lstrip x"
    by (rule fence_stripped_wrap [OF assms])
  assume h: "\<not> startswith (strip x) fence \<and> \<not> endswith (strip x) fence \<and>
      (rstrip x = x \<or>
       (\<exists>v. json_loads rt (lstrip x) = Loaded v \<and> json_loads rt (strip x) = Loaded v))"
  then have p: "fence_stripped x = strip x"
    by (simp add: fence_stripped_no_fence)
  from h consider "rstrip x = x"
    | v where "json_loads rt (lstrip x) = Loaded v" "json_loads rt (strip x) = Loaded v"
    by blast
  then show "clean_ai_response rt (wrap_in_fence tag x) = clean_ai_response rt x"
  proof cases
    case 1
    then have "strip x = lstrip x" by (rule strip_no_trailing)
    then show ?thesis by (simp add: clean_ai_response_def w p)
  next
    case 2
    then show ?thesis by (simp add: clean_ai_response_def Let_def w p)
  qed
qed

theorem fenced_input_same_intent_witness:
  "list_all ascii_letter (str ''json'') \<and>
   \<not> startswith (strip (str ''{} '')) fence \<and>
   \<not> endswith (strip (str ''{} '')) fence \<and>
   json_loads (answering 200 []) (lstrip (str ''{} '')) = Loaded (PDict []) \<and>
   json_loads (answering 200 []) (strip (str ''{} '')) = Loaded (PDict []) \<and>
   fence_stripped (wrap_in_fence (str ''json'') (str ''{} '')) = str ''{} '' \<and>
   clean_ai_response (answering 200 []) (wrap_in_fence (str ''json'') (str ''{} '')) =
     clean_ai_response (answering 200 []) (str ''{} '')"
proof -
  have l: "lstrip (str ''{} '') = str ''{} ''"
    by (simp add: lstrip_def py_isspace_def str_def)
  have s: "strip (str ''{} '') = str ''{}''"
    by (simp add: strip_def lstrip_def rstrip_def py_isspace_def str_def)
  have h1: "\<not> startswith (strip (str ''{} '')) fence"
    unfolding s by (simp add: startswith_def fence_def str_def)
  have h2: "\<not> endswith (strip (str ''{} '')) fence"
    unfolding s by (simp add: endswith_def fence_def str_def suffix_to_prefix)
  have h3: "json_loads (answering 200 []) (lstrip (str ''{} '')) = Loaded (PDict [])"
    unfolding l by (simp add: answering_def example_loads_def)
  have h4: "json_loads (answering 200 []) (strip (str ''{} '')) = Loaded (PDict [])"
    unfolding s by (simp add: answering_def example_loads_def)
  show ?thesis
    using fenced_input_same_intent [OF json_is_a_tag, of "str ''{} ''" "answering 200 []"]
      json_is_a_tag h1 h2 h3 h4 l
    by (simp add: list_all_iff)
qed

text \<open>
  The input \<^verbatim>\<open>a\<close> followed by a space: wrapped, the response text keeps the space;
  unwrapped, \<^verbatim>\<open>strip\<close> removes it.
\<close>

theorem fenced_trailing_space_counterexample:
  "clean_ai_response (answering 200 []) (wrap_in_fence (str ''json'') (str ''a '')) \<noteq>
   clean_ai_response (answering 200 []) (str ''a '')"
proof -
  have "lstrip (str ''a '') = str ''a ''"
    by (simp add: lstrip_def py_isspace_def str_def)
  then have "fence_stripped (wrap_in_fence (str ''json'') (str ''a '')) = str ''a ''"
    by (simp only: fence_stripped_wrap [OF json_is_a_tag])
  then show ?thesis
    by (simp add: clean_ai_response_def Let_def fence_stripped_a_space answering_def
          example_loads_def)
qed

end
